theory Spec2Isabelle
  imports Main "HOL-Library.Word"
begin

unbundle bit_operations_syntax

section \<open>Memory-mapped registers\<close>

text \<open>
  The library drives the peripherals of the BCM2835 through pointers into mapped register
  windows (\<open>base_pointer[0..6]\<close> in \<open>rpi.c\<close>). A register is named here by the macro the
  source uses for it. The GPIO window is addressed by word offset, because \<open>set_gpio\<close>
  computes \<open>GPSEL + pin/10\<close>; \<open>PWM_CTL\<close> is the macro \<open>CTL\<close> of the pulse generator,
  \<open>C\<close>, \<open>S\<close>, \<open>DLEN\<close>, \<open>A\<close> and \<open>FIFO\<close> are the registers of the two-wire controller
  (\<open>base_pointer[6]\<close>), \<open>SPI_CS\<close> is the control register of the four-wire controller
  (\<open>base_pointer[4]\<close>).
\<close>

datatype reg =
    GPIO nat
  | GPCTL | GPDIV
  | PWM_CTL
  | SPI_CS
  | C | S | DLEN | A | FIFO

abbreviation GPSEL :: nat where "GPSEL \<equiv> 0"

text \<open>Every access to a register is recorded, newest first.\<close>

datatype event = Rd reg "32 word" | Wr reg "32 word"

text \<open>
  All registers are \<open>volatile\<close>: between two accesses the peripheral may have changed
  them. The field \<open>feed\<close> lists what the device does: before each read the head of the list
  (a finite map from registers to the values the device puts there) is applied to the
  register file. Once the list is used up the device is quiescent and the registers behave as
  plain storage. \<open>out\<close> is what \<open>puts\<close> has printed, \<open>base_pointer i\<close> is the address held
  in \<open>base_pointer[i]\<close> (0 before \<open>rpi_init\<close>).
\<close>

record machine =
  regs :: "reg \<Rightarrow> 32 word"
  feed :: "(reg \<rightharpoonup> 32 word) list"
  trace :: "event list"
  out :: "string list"
  base_pointer :: "nat \<Rightarrow> nat"

definition device :: "(reg \<rightharpoonup> 32 word) \<Rightarrow> (reg \<Rightarrow> 32 word) \<Rightarrow> reg \<Rightarrow> 32 word" where
  "device u st = (\<lambda>x. case u x of None \<Rightarrow> st x | Some v \<Rightarrow> v)"

definition rd :: "reg \<Rightarrow> machine \<Rightarrow> 32 word \<times> machine" where
  "rd r m =
    (case feed m of
       [] \<Rightarrow> (regs m r, m\<lparr>trace := Rd r (regs m r) # trace m\<rparr>)
     | u # us \<Rightarrow>
         (device u (regs m) r,
          m\<lparr>regs := device u (regs m), feed := us,
            trace := Rd r (device u (regs m) r) # trace m\<rparr>))"

definition wr :: "reg \<Rightarrow> 32 word \<Rightarrow> machine \<Rightarrow> machine" where
  "wr r v m = m\<lparr>regs := (regs m)(r := v), trace := Wr r v # trace m\<rparr>"

definition puts :: "string \<Rightarrow> machine \<Rightarrow> machine" where
  "puts s m = m\<lparr>out := out m @ [s]\<rparr>"

text \<open>
  The device does not drive register \<open>r\<close>: no pending device action assigns it. The
  function-select latches and the control registers are of this kind.
\<close>

definition quiet :: "reg \<Rightarrow> machine \<Rightarrow> bool" where
  "quiet r m = list_all (\<lambda>u. u r = None) (feed m)"

text \<open>The values written to register \<open>r\<close>, oldest first.\<close>

fun writes_to :: "reg \<Rightarrow> event list \<Rightarrow> 32 word list" where
  "writes_to r [] = []"
| "writes_to r (Wr r' v # es) = (if r' = r then writes_to r es @ [v] else writes_to r es)"
| "writes_to r (Rd r' v # es) = writes_to r es"

section \<open>Register bit manipulation\<close>

text \<open>
  \<open>setBit\<close>, \<open>clearBit\<close> and \<open>isBitSet\<close> of \<open>rpi.c\<close>. \<open>*reg |= mask\<close> is a read followed by
  a write. The fixed waits (\<open>uswait\<close>, \<open>mswait\<close>) and the memory barriers have no effect on
  the register file and are left out.
\<close>

definition setBit :: "reg \<Rightarrow> nat \<Rightarrow> machine \<Rightarrow> 32 word \<times> machine" where
  "setBit r position m =
    (let mask = push_bit position 1;
         (v, m1) = rd r m
     in (v OR mask, wr r (v OR mask) m1))"

definition clearBit :: "reg \<Rightarrow> nat \<Rightarrow> machine \<Rightarrow> 32 word \<times> machine" where
  "clearBit r position m =
    (let mask = push_bit position 1;
         (v, m1) = rd r m
     in (v AND NOT mask, wr r (v AND NOT mask) m1))"

definition isBitSet :: "reg \<Rightarrow> nat \<Rightarrow> machine \<Rightarrow> bool \<times> machine" where
  "isBitSet r position m =
    (let (reg_data, m1) = rd r m;
         mask = push_bit position 1
     in (reg_data AND mask \<noteq> 0, m1))"

section \<open>Pin multiplexer\<close>

text \<open>
  \<open>set_gpio(pin, fsel)\<close>: the register is the word at offset \<open>pin/10\<close> of the GPIO window,
  the field of the pin starts at bit \<open>(pin % 10) * 3\<close>. The field is cleared with
  \<open>*gpsel &= ~(7 << shift)\<close> and then set with \<open>*gpsel |= fsel << shift\<close>. The shifts are
  done on 32-bit values; the shift count is at most 27.
\<close>

definition set_gpio :: "8 word \<Rightarrow> 8 word \<Rightarrow> machine \<Rightarrow> machine" where
  "set_gpio pin fsel m =
    (let gpsel = GPIO (GPSEL + unat pin div 10);
         mask = NOT (push_bit ((unat pin mod 10) * 3) (7 :: 32 word));
         (v1, m1) = rd gpsel m;
         m2 = wr gpsel (v1 AND mask) m1;
         mask2 = push_bit ((unat pin mod 10) * 3) (ucast fsel :: 32 word);
         (v2, m3) = rd gpsel m2
     in wr gpsel (v2 OR mask2) m3)"

text \<open>
  Decoding of the function-select field of the \<open>k\<close>-th pin of a register: three bits
  starting at bit \<open>3 * k\<close>.
\<close>

definition fsel_field :: "32 word \<Rightarrow> nat \<Rightarrow> 32 word" where
  "fsel_field w k = take_bit 3 (drop_bit (3 * k) w)"

section \<open>Clock generator\<close>






section \<open>Two-wire bus\<close>

text \<open>
  A transaction either returns, or never returns because a polling loop spins on a status bit
  that no longer changes (\<open>Stall\<close>), or indexes the caller's buffer past its end
  (\<open>Overrun\<close>).
\<close>

datatype fault = Stall | Overrun

definition clear_fifo :: "reg \<Rightarrow> machine \<Rightarrow> machine" where
  "clear_fifo r m =
    (let mask = NOT (push_bit 4 3);
         (v1, m1) = rd r m;
         m2 = wr r (v1 AND mask) m1;
         mask' = push_bit 4 3;
         (v2, m3) = rd r m2
     in wr r (v2 OR mask') m3)"

definition reset_error_status :: "machine \<Rightarrow> machine" where
  "reset_error_status m =
    (let m1 = snd (setBit S 9 m);
         m2 = snd (setBit S 8 m1)
     in snd (setBit S 1 m2))"

text \<open>
  The condition \<open>isBitSet(S, 1) && !isBitSet(S, 0)\<close> that closes every transaction: the
  transfer-active bit is only read when the completion bit was set.
\<close>

definition done_and_idle :: "machine \<Rightarrow> bool \<times> machine" where
  "done_and_idle m =
    (let (done, m1) = isBitSet S 1 m
     in if done then (let (ta, m2) = isBitSet S 0 m1 in (\<not> ta, m2)) else (False, m1))"

text \<open>
  The push loop of \<open>i2c_write\<close> (\<open>txbit = 2\<close>) and of \<open>i2c_slave_write_test\<close>
  (\<open>txbit = 4\<close>), which differ in that bit only:
  \<^verbatim>\<open>while(!isBitSet(S, 1)) { while(isBitSet(S, txbit)) { *fifo = buf[i]; i++; } }\<close>
  \<open>inner\<close> tells at which of the two loop heads the control is. The index \<open>i\<close> is a
  \<open>uint8_t\<close> and is not compared with \<open>len\<close>. A byte of the buffer is stored to the
  32-bit register zero-extended (\<open>char\<close> is unsigned on the ARM targets of the library). When the device is quiescent and the
  flag tested by the inner loop is set, the loop pushes for ever: it runs through every index
  from 0 to 255, so it leaves the buffer unless that has 256 bytes. When the device is
  quiescent and the completion bit is clear, the outer loop spins for ever.
\<close>

function fifo_push ::
  "nat \<Rightarrow> 8 word list \<Rightarrow> bool \<Rightarrow> 8 word \<Rightarrow> machine \<Rightarrow> fault + (8 word \<times> machine)" where
  "fifo_push txbit buf inner i m =
    (if inner then
       (let (space, m1) = isBitSet S txbit m in
        if space then
          (if unat i < length buf then
             (if feed m = [] then Inl (if length buf < 256 then Overrun else Stall)
              else fifo_push txbit buf True (i + 1) (wr FIFO (ucast (buf ! unat i)) m1))
           else Inl Overrun)
        else fifo_push txbit buf False i m1)
     else
       (let (done, m1) = isBitSet S 1 m in
        if done then Inr (i, m1)
        else if feed m = [] then Inl Stall
        else fifo_push txbit buf True i m1))"
  by pat_completeness auto
termination
  by (relation "measure (\<lambda>(txbit, buf, inner, i, m). 2 * length (feed m) + (if inner then 1 else 0))")
     (auto simp: isBitSet_def rd_def wr_def Let_def split: list.splits)

declare fifo_push.simps [simp del]



text \<open>
  \<open>i2c_write(buf, len)\<close>. \<open>DLEN\<close> is stored before \<open>len\<close> is cut to 16, and the cut value
  is only used by the test \<open>i < len\<close> after the loop. The four classification tests are
  independent \<open>if\<close> statements, each overwriting \<open>result\<close>.
\<close>

definition i2c_write ::
  "8 word list \<Rightarrow> 8 word \<Rightarrow> machine \<Rightarrow> fault + (8 word \<times> machine)" where
  "i2c_write buf len m =
    (let m1 = clear_fifo C m;
         m2 = reset_error_status m1;
         m3 = wr DLEN (ucast len) m2;
         (len', m4) =
           (if len > 16
            then (16, puts ''maximum number of bytes per one write cycle is 16 bytes, beyond this data will be ignored'' m3)
            else (len, m3));
         m5 = snd (clearBit C 0 m4);
         m6 = snd (setBit C 7 m5)
     in case fifo_push 2 buf False 0 m6 of
          Inl f \<Rightarrow> Inl f
        | Inr (i, m7) \<Rightarrow>
            (let (nack, m8) = isBitSet S 8 m7;
                 (result1, m9) =
                   (if nack then (0x01, puts ''write error - slave address not acknowledged'' m8)
                    else (0x0, m8));
                 (clkt, m10) = isBitSet S 9 m9;
                 (result2, m11) =
                   (if clkt then (0x02, puts ''write error - clock stretch timeout'' m10)
                    else (result1, m10));
                 (txw, m12) = isBitSet S 2 m11;
                 (result3, m13) =
                   (if txw \<or> i < len'
                    then (0x04, puts ''write error - not all data is sent to slave device'' m12)
                    else (result2, m12));
                 (ok, m14) = done_and_idle m13
             in if ok then Inr (result3, snd (setBit S 1 m14))
                else Inr (0x04, puts ''write error - data transfer is not complete'' m14)))"

text \<open>
  The drain loop of \<open>i2c_read\<close>:
  \<^verbatim>\<open>while(!isBitSet(S, 1)) { while(isBitSet(S, 5) && i < len) { buf[i] = *fifo; i++; } }\<close>
\<close>

function fifo_pull ::
  "8 word \<Rightarrow> bool \<Rightarrow> 8 word \<Rightarrow> 8 word list \<Rightarrow> machine
    \<Rightarrow> fault + ((8 word \<times> 8 word list) \<times> machine)" where
  "fifo_pull len inner i buf m =
    (if inner then
       (let (rxd, m1) = isBitSet S 5 m in
        if rxd \<and> i < len then
          (if unat i < length buf then
             (let (v, m2) = rd FIFO m1
              in fifo_pull len True (i + 1) (buf[unat i := ucast v]) m2)
           else Inl Overrun)
        else fifo_pull len False i buf m1)
     else
       (let (done, m1) = isBitSet S 1 m in
        if done then Inr ((i, buf), m1)
        else if feed m = [] then Inl Stall
        else fifo_pull len True i buf m1))"
  by pat_completeness auto
termination
proof -
  have bound: "unat w < 256" for w :: "8 word"
    using unsigned_less [of w, where ?'a = nat] by simp
  have step: "Suc (unat i) mod 256 = Suc (unat i)" if "unat i < unat len" for i len :: "8 word"
    using that bound [of len] by simp
  show ?thesis
    by (relation "measure (\<lambda>(len, inner, i, buf, m).
          2 * (length (feed m) + (unat len - unat i)) + (if inner then 1 else 0))")
       (auto simp: isBitSet_def rd_def Let_def word_less_nat_alt unat_word_ariths step
             split: list.splits)
qed

declare fifo_pull.simps [simp del]

text \<open>
  \<open>i2c_read(buf, len)\<close>: here the not-acknowledged test comes first in an
  \<open>if\<close> / \<open>else if\<close> chain after the completion test.
\<close>

definition i2c_read ::
  "8 word list \<Rightarrow> 8 word \<Rightarrow> machine \<Rightarrow> fault + ((8 word \<times> 8 word list) \<times> machine)" where
  "i2c_read buf len m =
    (let m1 = clear_fifo C m;
         m2 = reset_error_status m1;
         m3 = wr DLEN (ucast len) m2;
         m4 = snd (setBit C 0 m3);
         m5 = snd (setBit C 7 m4)
     in case fifo_pull len False 0 buf m5 of
          Inl f \<Rightarrow> Inl f
        | Inr ((i, buf'), m6) \<Rightarrow>
            (let (ok, m7) = done_and_idle m6;
                 (result, m8) =
                   (if ok then (0, snd (setBit S 1 m7))
                    else (0x04, puts ''read error - data transfer is not complete'' m7));
                 (nack, m9) = isBitSet S 8 m8
             in if nack
                then Inr ((0x01, buf'), puts ''read error - slave address not acknowledge'' m9)
                else (let (clkt, m10) = isBitSet S 9 m9
                      in if clkt
                         then Inr ((0x02, buf'), puts ''read error - clock stretch timeout'' m10)
                         else (let (rxd, m11) = isBitSet S 5 m10
                               in if rxd \<or> i < len
                                  then Inr ((0x04, buf'), puts ''read error - not all data is received from slave device'' m11)
                                  else Inr ((result, buf'), m11)))))"

text \<open>
  The loop of \<open>i2c_byte_read\<close>:
  \<^verbatim>\<open>while(!isBitSet(S, 1)) { while(isBitSet(S, 5)) { data = *fifo; } }\<close>
\<close>

function byte_pull :: "bool \<Rightarrow> 8 word \<Rightarrow> machine \<Rightarrow> fault + (8 word \<times> machine)" where
  "byte_pull inner data m =
    (if inner then
       (let (rxd, m1) = isBitSet S 5 m in
        if rxd then
          (if feed m = [] then Inl Stall
           else (let (v, m2) = rd FIFO m1 in byte_pull True (ucast v) m2))
        else byte_pull False data m1)
     else
       (let (done, m1) = isBitSet S 1 m in
        if done then Inr (data, m1)
        else if feed m = [] then Inl Stall
        else byte_pull True data m1))"
  by pat_completeness auto
termination
  by (relation "measure (\<lambda>(inner, data, m). 2 * length (feed m) + (if inner then 1 else 0))")
     (auto simp: isBitSet_def rd_def Let_def split: list.splits)

declare byte_pull.simps [simp del]

text \<open>
  \<open>i2c_byte_read()\<close> returns the error codes and the data byte through the same
  \<open>uint8_t\<close>.
\<close>

definition i2c_byte_read :: "machine \<Rightarrow> fault + (8 word \<times> machine)" where
  "i2c_byte_read m =
    (let m1 = clear_fifo C m;
         m2 = reset_error_status m1;
         m3 = snd (setBit C 0 m2);
         m4 = snd (setBit C 7 m3);
         m5 = wr DLEN 1 m4
     in case byte_pull False 0 m5 of
          Inl f \<Rightarrow> Inl f
        | Inr (data, m6) \<Rightarrow>
            (let (ok, m7) = done_and_idle m6
             in if \<not> ok
                then Inr (0x04, puts ''read error - data transfer is not complete'' m7)
                else (let m8 = snd (setBit S 1 m7);
                          (nack, m9) = isBitSet S 8 m8
                      in if nack
                         then Inr (0x01, puts ''read error - slave address not acknowledged'' m9)
                         else (let (clkt, m10) = isBitSet S 9 m9
                               in if clkt
                                  then Inr (0x02, puts ''read error - clock stretch timeout'' m10)
                                  else (let (rxd, m11) = isBitSet S 5 m10
                                        in if rxd
                                           then Inr (0x04, puts ''read error - not all data is sent/received'' m11)
                                           else Inr (data, m11))))))"

section \<open>Four-wire bus\<close>

text \<open>
  \<open>spi_start()\<close> and \<open>spi_stop()\<close>. Both call \<open>clear_fifo(C)\<close>, and \<open>C\<close> is the control
  register of the two-wire controller.
\<close>

definition spi_start :: "machine \<Rightarrow> 32 word \<times> machine" where
  "spi_start m =
    (if base_pointer m 4 = 0
     then (0, puts ''spi init() fail, spi registers didn't received the correct adresses'' m)
     else
       (let m1 = set_gpio 8 4 m;
            m2 = set_gpio 7 4 m1;
            m3 = set_gpio 10 4 m2;
            m4 = set_gpio 9 4 m3;
            m5 = set_gpio 11 4 m4;
            m6 = snd (clearBit SPI_CS 13 m5);
            m7 = clear_fifo C m6
        in (1, m7)))"

definition spi_stop :: "machine \<Rightarrow> machine" where
  "spi_stop m =
    (let m1 = clear_fifo C m;
         m2 = set_gpio 8 0 m1;
         m3 = set_gpio 7 0 m2;
         m4 = set_gpio 10 0 m3;
         m5 = set_gpio 9 0 m4
     in set_gpio 11 0 m5)"

text \<open>
  \<open>spi_set_data_mode(mode)\<close>: bit 2 of \<open>SPI_CS\<close> is the clock phase, bit 3 the clock
  polarity. A mode above 3 matches no branch.
\<close>

definition spi_set_data_mode :: "8 word \<Rightarrow> machine \<Rightarrow> machine" where
  "spi_set_data_mode mode m =
    (if mode = 0 then snd (clearBit SPI_CS 3 (snd (clearBit SPI_CS 2 m)))
     else if mode = 1 then snd (clearBit SPI_CS 3 (snd (setBit SPI_CS 2 m)))
     else if mode = 2 then snd (setBit SPI_CS 3 (snd (clearBit SPI_CS 2 m)))
     else if mode = 3 then snd (clearBit SPI_CS 3 (snd (clearBit SPI_CS 2 m)))
     else m)"

text \<open>
  \<open>spi_set_chip_select_polarity(cs, active)\<close>: bits 21, 22 and 23 of \<open>SPI_CS\<close> are the
  polarity bits of the three chip selects. All three are cleared first.
\<close>

definition spi_set_chip_select_polarity :: "8 word \<Rightarrow> 8 word \<Rightarrow> machine \<Rightarrow> machine" where
  "spi_set_chip_select_polarity cs active m =
    (let m1 = snd (clearBit SPI_CS 21 m);
         m2 = snd (clearBit SPI_CS 22 m1);
         m3 = snd (clearBit SPI_CS 23 m2)
     in if cs = 0 \<and> active = 1 then snd (setBit SPI_CS 21 m3)
        else if cs = 0 \<and> active = 0 then snd (clearBit SPI_CS 21 m3)
        else if cs = 1 \<and> active = 1 then snd (setBit SPI_CS 22 m3)
        else if cs = 1 \<and> active = 0 then snd (clearBit SPI_CS 22 m3)
        else if cs = 2 \<and> active = 1 then snd (setBit SPI_CS 23 m3)
        else if cs = 2 \<and> active = 0 then snd (clearBit SPI_CS 23 m3)
        else m3)"

section \<open>Concrete machines\<close>

text \<open>
  A machine with register file \<open>st\<close>, pending device actions \<open>dev\<close>, nothing recorded or
  printed yet, and every register window mapped.
\<close>

definition machine_of :: "(reg \<Rightarrow> 32 word) \<Rightarrow> (reg \<rightharpoonup> 32 word) list \<Rightarrow> machine" where
  "machine_of st dev =
    \<lparr>regs = st, feed = dev, trace = [], out = [], base_pointer = (\<lambda>i. 4096 * (i + 1))\<rparr>"

text \<open>
  The device actions during the seven register reads that every two-wire transaction makes
  before its polling loop (two in \<open>clear_fifo\<close>, three in \<open>reset_error_status\<close>, two for
  the direction and start bits): none.
\<close>

definition prologue :: "(reg \<rightharpoonup> 32 word) list" where
  "prologue = [Map.empty, Map.empty, Map.empty, Map.empty, Map.empty, Map.empty, Map.empty]"

text \<open>What a transaction returns and what it has printed.\<close>

definition returned :: "fault + ('a \<times> machine) \<Rightarrow> fault + 'a" where
  "returned x = (case x of Inl f \<Rightarrow> Inl f | Inr (r, m) \<Rightarrow> Inr r)"

definition printed :: "fault + ('a \<times> machine) \<Rightarrow> string list" where
  "printed x = (case x of Inl f \<Rightarrow> [] | Inr (r, m) \<Rightarrow> out m)"

text \<open>
  All that is observed of a transaction that returns: the value returned, the values stored
  to \<open>DLEN\<close>, the values stored to \<open>FIFO\<close>, and the messages printed.
\<close>

definition outcome ::
  "fault + ('a \<times> machine) \<Rightarrow> fault + ('a \<times> 32 word list \<times> 32 word list \<times> string list)" where
  "outcome x =
    (case x of
       Inl f \<Rightarrow> Inl f
     | Inr (r, m) \<Rightarrow> Inr (r, writes_to DLEN (trace m), writes_to FIFO (trace m), out m))"

section \<open>Access lemmas\<close>

lemma rd_trace: "trace (snd (rd r m)) = Rd r (fst (rd r m)) # trace m"
  by (simp add: rd_def split: list.split)

lemma rd_out: "out (snd (rd r m)) = out m"
  by (simp add: rd_def split: list.split)

lemma rd_base_pointer: "base_pointer (snd (rd r m)) = base_pointer m"
  by (simp add: rd_def split: list.split)

lemma rd_quiet_val: "quiet r m \<Longrightarrow> fst (rd r m) = regs m r"
  by (auto simp: rd_def quiet_def device_def split: list.split)

lemma rd_quiet_regs: "quiet r m \<Longrightarrow> regs (snd (rd r' m)) r = regs m r"
  by (auto simp: rd_def quiet_def device_def split: list.split)

lemma rd_quiet: "quiet r m \<Longrightarrow> quiet r (snd (rd r' m))"
  by (auto simp: rd_def quiet_def split: list.split)

lemma wr_regs: "regs (wr r v m) r' = (if r' = r then v else regs m r')"
  by (simp add: wr_def)

lemma wr_trace: "trace (wr r v m) = Wr r v # trace m"
  by (simp add: wr_def)

lemma wr_out: "out (wr r v m) = out m"
  by (simp add: wr_def)

lemma wr_base_pointer: "base_pointer (wr r v m) = base_pointer m"
  by (simp add: wr_def)

lemma wr_feed: "feed (wr r v m) = feed m"
  by (simp add: wr_def)

lemma wr_quiet: "quiet r (wr r' v m) = quiet r m"
  by (simp add: wr_def quiet_def)

lemma puts_regs: "regs (puts s m) = regs m"
  by (simp add: puts_def)

lemma puts_trace: "trace (puts s m) = trace m"
  by (simp add: puts_def)

lemma puts_out: "out (puts s m) = out m @ [s]"
  by (simp add: puts_def)

lemma puts_feed: "feed (puts s m) = feed m"
  by (simp add: puts_def)

lemma puts_base_pointer: "base_pointer (puts s m) = base_pointer m"
  by (simp add: puts_def)

lemma puts_quiet: "quiet r (puts s m) = quiet r m"
  by (simp add: puts_def quiet_def)

lemmas access_simps =
  rd_trace rd_out rd_base_pointer rd_quiet_val rd_quiet_regs rd_quiet
  wr_regs wr_trace wr_out wr_base_pointer wr_feed wr_quiet
  puts_regs puts_trace puts_out puts_feed puts_base_pointer puts_quiet



lemma clearBit_snd:
  "snd (clearBit r n m) = wr r (fst (rd r m) AND NOT (push_bit n 1)) (snd (rd r m))"
  by (simp add: clearBit_def Let_def split_def)

lemma setBit_snd:
  "snd (setBit r n m) = wr r (fst (rd r m) OR push_bit n 1) (snd (rd r m))"
  by (simp add: setBit_def Let_def split_def)



lemma machine_of_simps:
  "regs (machine_of st dev) = st"
  "feed (machine_of st dev) = dev"
  "trace (machine_of st dev) = []"
  "out (machine_of st dev) = []"
  "base_pointer (machine_of st dev) i = 4096 * (i + 1)"
  "quiet r (machine_of st dev) = list_all (\<lambda>u. u r = None) dev"
  by (simp_all add: machine_of_def quiet_def)

text \<open>
  On a register that the device does not drive, \<open>clearBit\<close> and \<open>setBit\<close> change the bit
  they name and no other.
\<close>

lemma clearBit_bit:
  "quiet r m \<Longrightarrow> bit (regs (snd (clearBit r k m)) r) n \<longleftrightarrow> bit (regs m r) n \<and> n \<noteq> k"
  by (auto simp: clearBit_snd access_simps bit_simps dest: bit_imp_le_length)

lemma setBit_bit:
  "quiet r m \<Longrightarrow> k < 32 \<Longrightarrow>
   bit (regs (snd (setBit r k m)) r) n \<longleftrightarrow> bit (regs m r) n \<or> n = k"
  by (auto simp: setBit_snd access_simps bit_simps)

lemma clearBit_quiet: "quiet r' m \<Longrightarrow> quiet r' (snd (clearBit r k m))"
  by (simp add: clearBit_snd access_simps)

lemma setBit_quiet: "quiet r' m \<Longrightarrow> quiet r' (snd (setBit r k m))"
  by (simp add: setBit_snd access_simps)

section \<open>Function select\<close>

lemma seven_mask: "(7 :: 32 word) = mask 3"
  by (simp add: mask_eq_exp_minus_1)

lemma fsel_bits: "fsel \<le> (7 :: 8 word) \<Longrightarrow> bit fsel n \<Longrightarrow> n < 3"
proof -
  assume a: "fsel \<le> 7" and b: "bit fsel n"
  from a have "fsel < 2 ^ 3"
    by (simp add: word_le_nat_alt word_less_nat_alt)
  then have "take_bit 3 fsel = fsel"
    by (simp add: less_mask_eq take_bit_eq_mask)
  then have "bit (take_bit 3 fsel) n" using b by simp
  then show "n < 3" by (simp add: bit_simps)
qed

lemma field_set:
  assumes "j < 10" "fsel \<le> (7 :: 8 word)"
  shows "fsel_field ((v AND NOT (push_bit (j * 3) 7)) OR push_bit (j * 3) (ucast fsel)) j
    = ucast fsel"
  unfolding fsel_field_def seven_mask
  apply (rule bit_eqI)
  using assms
  apply (auto simp: bit_simps dest: fsel_bits)
  done

lemma field_keep:
  assumes "j < 10" "k < 10" "k \<noteq> j" "fsel \<le> (7 :: 8 word)"
  shows "fsel_field ((v AND NOT (push_bit (j * 3) 7)) OR push_bit (j * 3) (ucast fsel)) k
    = fsel_field v k"
  unfolding fsel_field_def seven_mask
  apply (rule bit_eqI)
  using assms
  apply (auto simp: bit_simps dest: fsel_bits)
  done

lemma set_gpio_regs:
  "quiet (GPIO (unat pin div 10)) m \<Longrightarrow>
   regs (set_gpio pin fsel m) (GPIO (unat pin div 10)) =
     (regs m (GPIO (unat pin div 10)) AND NOT (push_bit ((unat pin mod 10) * 3) 7))
       OR push_bit ((unat pin mod 10) * 3) (ucast fsel)"
  by (simp add: set_gpio_def Let_def split_def access_simps)

lemma set_gpio_regs_other:
  "quiet r m \<Longrightarrow> r \<noteq> GPIO (unat pin div 10) \<Longrightarrow> regs (set_gpio pin fsel m) r = regs m r"
  by (simp add: set_gpio_def Let_def split_def access_simps)

lemma set_gpio_quiet: "quiet r m \<Longrightarrow> quiet r (set_gpio pin fsel m)"
  by (simp add: set_gpio_def Let_def split_def access_simps)

lemma set_gpio_trace:
  "\<exists>a b c d. trace (set_gpio pin fsel m) =
     Wr (GPIO (unat pin div 10)) a # Rd (GPIO (unat pin div 10)) b #
     Wr (GPIO (unat pin div 10)) c # Rd (GPIO (unat pin div 10)) d # trace m"
  by (simp add: set_gpio_def Let_def split_def access_simps)

text \<open>
  C1. For a pin from 0 to 53 and a function code from 0 to 7, \<open>set_gpio\<close> works on the
  register at offset \<open>pin/10\<close> from \<open>GPSEL\<close> only (a read and a write to clear the field, a
  read and a write to set it); afterwards the field of the pin decodes to the code, and the
  field of every other pin \<open>k\<close> of the same register is what it was before the call. The
  register is one that the device does not drive.
\<close>

theorem set_gpio_function_select:
  assumes "pin \<le> 53" and "fsel \<le> 7"
    and "quiet (GPIO (unat pin div 10)) m"
    and "k < 10" and "k \<noteq> unat pin mod 10"
  shows "fsel_field (regs (set_gpio pin fsel m) (GPIO (unat pin div 10))) (unat pin mod 10)
        = ucast fsel
    \<and> fsel_field (regs (set_gpio pin fsel m) (GPIO (unat pin div 10))) k
        = fsel_field (regs m (GPIO (unat pin div 10))) k
    \<and> (\<exists>a b c d. trace (set_gpio pin fsel m) =
         Wr (GPIO (unat pin div 10)) a # Rd (GPIO (unat pin div 10)) b #
         Wr (GPIO (unat pin div 10)) c # Rd (GPIO (unat pin div 10)) d # trace m)"
  using assms by (simp add: set_gpio_regs field_set field_keep set_gpio_trace)

text \<open>
  Pin 17 to alternate function 0 (code 4) while the device is about to change the status
  register of the two-wire controller: field 7 of \<open>GPIO 1\<close> becomes 4, field 3 keeps the
  value 7 it had.
\<close>

theorem set_gpio_function_select_witness:
  "(17 :: 8 word) \<le> 53 \<and> (4 :: 8 word) \<le> 7
    \<and> quiet (GPIO 1) (machine_of (\<lambda>r. 0x3FFFFFFF) [[S \<mapsto> 2]])
    \<and> fsel_field (regs (set_gpio 17 4 (machine_of (\<lambda>r. 0x3FFFFFFF) [[S \<mapsto> 2]])) (GPIO 1)) 7 = 4
    \<and> fsel_field (regs (set_gpio 17 4 (machine_of (\<lambda>r. 0x3FFFFFFF) [[S \<mapsto> 2]])) (GPIO 1)) 3 = 7"
  using set_gpio_function_select [of 17 4 "machine_of (\<lambda>r. 0x3FFFFFFF) [[S \<mapsto> 2]]" 3]
  by (simp add: quiet_def machine_of_def fsel_field_def)

section \<open>Clock reconfiguration\<close>




section \<open>Clock divisor out of range\<close>





section \<open>Four-wire mode and chip-select polarity\<close>

text \<open>
  C6. Mode 3 on a register that has phase and polarity set: both bits are clear afterwards,
  and the register is the one that mode 0 leaves. The header comment of the function gives
  mode 3 as \<open>CPOL = 1, CPHA = 1\<close>.
\<close>

theorem spi_set_data_mode_3:
  "\<not> bit (regs (spi_set_data_mode 3 (machine_of (\<lambda>r. 0xC) [])) SPI_CS) 2
   \<and> \<not> bit (regs (spi_set_data_mode 3 (machine_of (\<lambda>r. 0xC) [])) SPI_CS) 3
   \<and> regs (spi_set_data_mode 3 (machine_of (\<lambda>r. 0xC) [])) SPI_CS
       = regs (spi_set_data_mode 0 (machine_of (\<lambda>r. 0xC) [])) SPI_CS"
  by (simp add: spi_set_data_mode_def clearBit_bit clearBit_quiet machine_of_simps)

lemma word8_le_2: "cs \<le> (2 :: 8 word) \<Longrightarrow> cs = 0 \<or> cs = 1 \<or> cs = 2"
proof -
  assume "cs \<le> 2"
  then have "unat cs = 0 \<or> unat cs = 1 \<or> unat cs = 2"
    by (auto simp: word_le_nat_alt)
  then show ?thesis
    by (auto simp: word_unat_eq_iff)
qed

text \<open>
  C7, as the code has it. For a chip-select index from 0 to 2 and any value of \<open>active\<close>,
  on a control register that the device does not drive: after the call the polarity bit of
  the index (bit 21 + index) is set exactly when \<open>active\<close> is 1, the other two polarity
  bits are clear, and every bit outside 21 to 23 is as before.
\<close>

theorem spi_set_chip_select_polarity_bits:
  assumes "cs \<le> 2" and "quiet SPI_CS m"
  shows "bit (regs (spi_set_chip_select_polarity cs active m) SPI_CS) n =
    (if n = 21 + unat cs then active = 1
     else if 21 \<le> n \<and> n \<le> 23 then False
     else bit (regs m SPI_CS) n)"
proof -
  consider "cs = 0" | "cs = 1" | "cs = 2"
    using word8_le_2 [OF assms(1)] by blast
  then show ?thesis
  proof cases
    case 1
    then show ?thesis using assms(2)
      by (cases "active = 1"; cases "active = 0")
         (auto simp: spi_set_chip_select_polarity_def Let_def clearBit_bit setBit_bit
            clearBit_quiet setBit_quiet)
  next
    case 2
    then show ?thesis using assms(2)
      by (cases "active = 1"; cases "active = 0")
         (auto simp: spi_set_chip_select_polarity_def Let_def clearBit_bit setBit_bit
            clearBit_quiet setBit_quiet)
  next
    case 3
    then show ?thesis using assms(2)
      by (cases "active = 1"; cases "active = 0")
         (auto simp: spi_set_chip_select_polarity_def Let_def clearBit_bit setBit_bit
            clearBit_quiet setBit_quiet)
  qed
qed

text \<open>
  Chip select 1 made active high on a register with all three polarity bits set: bit 22 is
  set, bit 21 is clear.
\<close>

theorem spi_set_chip_select_polarity_bits_witness:
  "(1 :: 8 word) \<le> 2 \<and> quiet SPI_CS (machine_of (\<lambda>r. 0xE00000) [[S \<mapsto> 2]])
   \<and> bit (regs (spi_set_chip_select_polarity 1 1 (machine_of (\<lambda>r. 0xE00000) [[S \<mapsto> 2]])) SPI_CS) 22
   \<and> \<not> bit (regs (spi_set_chip_select_polarity 1 1 (machine_of (\<lambda>r. 0xE00000) [[S \<mapsto> 2]])) SPI_CS) 21"
  using spi_set_chip_select_polarity_bits [of 1 "machine_of (\<lambda>r. 0xE00000) [[S \<mapsto> 2]]" 1 22]
    spi_set_chip_select_polarity_bits [of 1 "machine_of (\<lambda>r. 0xE00000) [[S \<mapsto> 2]]" 1 21]
  by (simp add: machine_of_simps)

text \<open>
  C7 as stated fails: with all three polarity bits set, making chip select 0 active high
  clears bit 22, the polarity bit of chip select 1.
\<close>

theorem spi_set_chip_select_polarity_counterexample:
  "bit (regs (spi_set_chip_select_polarity 0 1 (machine_of (\<lambda>r. 0xE00000) [])) SPI_CS) 22
    \<noteq> bit (regs (machine_of (\<lambda>r. 0xE00000) []) SPI_CS) 22"
  by (simp add: spi_set_chip_select_polarity_def Let_def clearBit_bit setBit_bit
      clearBit_quiet setBit_quiet machine_of_simps)

section \<open>Clearing the FIFO of the four-wire engine\<close>

lemma and_not_or_same: "(v AND NOT x) OR x = v OR (x :: 32 word)"
  by (rule bit_eqI) (auto simp: bit_simps)

lemma and_not_or_48: "(v AND - 49) OR 48 = v OR (48 :: 32 word)"
  using and_not_or_same [of v 48] by simp

lemma clear_fifo_regs: "quiet r m \<Longrightarrow> regs (clear_fifo r m) r = regs m r OR 0x30"
  by (simp add: clear_fifo_def Let_def split_def access_simps and_not_or_48)

lemma clear_fifo_regs_other:
  "quiet r' m \<Longrightarrow> r' \<noteq> r \<Longrightarrow> regs (clear_fifo r m) r' = regs m r'"
  by (simp add: clear_fifo_def Let_def split_def access_simps)

lemma clear_fifo_quiet: "quiet r' m \<Longrightarrow> quiet r' (clear_fifo r m)"
  by (simp add: clear_fifo_def Let_def split_def access_simps)

lemma clear_fifo_writes:
  "quiet r m \<Longrightarrow> writes_to r (trace (clear_fifo r m)) =
     writes_to r (trace m) @ [regs m r AND NOT 0x30, regs m r OR 0x30]"
  by (simp add: clear_fifo_def Let_def split_def access_simps and_not_or_48)

lemma clear_fifo_writes_other:
  "r' \<noteq> r \<Longrightarrow> writes_to r' (trace (clear_fifo r m)) = writes_to r' (trace m)"
  by (simp add: clear_fifo_def Let_def split_def access_simps)

lemma set_gpio_writes_other:
  "r \<noteq> GPIO (unat pin div 10) \<Longrightarrow>
   writes_to r (trace (set_gpio pin fsel m)) = writes_to r (trace m)"
  by (simp add: set_gpio_def Let_def split_def access_simps)

lemma clearBit_regs:
  "quiet r m \<Longrightarrow> regs (snd (clearBit r k m)) r = regs m r AND NOT (push_bit k 1)"
  by (simp add: clearBit_snd access_simps)

lemma clearBit_regs_other:
  "quiet r' m \<Longrightarrow> r' \<noteq> r \<Longrightarrow> regs (snd (clearBit r k m)) r' = regs m r'"
  by (simp add: clearBit_snd access_simps)

lemma clearBit_writes:
  "quiet r m \<Longrightarrow> writes_to r (trace (snd (clearBit r k m))) =
     writes_to r (trace m) @ [regs m r AND NOT (push_bit k 1)]"
  by (simp add: clearBit_snd access_simps)

lemma clearBit_writes_other:
  "r' \<noteq> r \<Longrightarrow> writes_to r' (trace (snd (clearBit r k m))) = writes_to r' (trace m)"
  by (simp add: clearBit_snd access_simps)

text \<open>
  C9. With the four-wire window mapped and the two control registers not driven by the
  device: \<open>spi_start\<close> returns 1, and both \<open>spi_start\<close> and \<open>spi_stop\<close> do their
  clear-FIFO step on \<open>C\<close>, the control register of the two-wire controller, with two
  stores (bits 4 and 5 cleared, then bits 4 and 5 set), which leaves \<open>C\<close> with bits 4 and 5
  set. \<open>spi_start\<close> stores to \<open>SPI_CS\<close> once, to clear bit 13, and bits 4 and 5 of
  \<open>SPI_CS\<close> are as before; \<open>spi_stop\<close> does not store to \<open>SPI_CS\<close> at all.
\<close>

theorem spi_clear_fifo_on_two_wire:
  assumes "base_pointer m 4 \<noteq> 0" and "quiet C m" and "quiet SPI_CS m"
  shows "fst (spi_start m) = 1
    \<and> regs (snd (spi_start m)) C = regs m C OR 0x30
    \<and> writes_to C (trace (snd (spi_start m)))
        = writes_to C (trace m) @ [regs m C AND NOT 0x30, regs m C OR 0x30]
    \<and> writes_to SPI_CS (trace (snd (spi_start m)))
        = writes_to SPI_CS (trace m) @ [regs m SPI_CS AND NOT (push_bit 13 1)]
    \<and> bit (regs (snd (spi_start m)) SPI_CS) 4 = bit (regs m SPI_CS) 4
    \<and> bit (regs (snd (spi_start m)) SPI_CS) 5 = bit (regs m SPI_CS) 5
    \<and> regs (spi_stop m) C = regs m C OR 0x30
    \<and> writes_to C (trace (spi_stop m))
        = writes_to C (trace m) @ [regs m C AND NOT 0x30, regs m C OR 0x30]
    \<and> writes_to SPI_CS (trace (spi_stop m)) = writes_to SPI_CS (trace m)
    \<and> regs (spi_stop m) SPI_CS = regs m SPI_CS"
proof -
  have start: "snd (spi_start m) =
    clear_fifo C (snd (clearBit SPI_CS 13
      (set_gpio 11 4 (set_gpio 9 4 (set_gpio 10 4 (set_gpio 7 4 (set_gpio 8 4 m)))))))"
    "fst (spi_start m) = 1"
    using assms(1) by (simp_all add: spi_start_def Let_def)
  have q: "quiet r (set_gpio 11 f (set_gpio 9 f (set_gpio 10 f (set_gpio 7 f (set_gpio 8 f m')))))"
    if "quiet r m'" for r f m'
    using that by (simp add: set_gpio_quiet)
  have g: "regs (set_gpio 11 f (set_gpio 9 f (set_gpio 10 f (set_gpio 7 f (set_gpio 8 f m'))))) r
      = regs m' r"
    if "quiet r m'" "r = C \<or> r = SPI_CS" for r f m'
    using that by (auto simp: set_gpio_regs_other set_gpio_quiet)
  have w: "writes_to r (trace (set_gpio 11 f (set_gpio 9 f (set_gpio 10 f (set_gpio 7 f (set_gpio 8 f m'))))))
      = writes_to r (trace m')"
    if "r = C \<or> r = SPI_CS" for r f m'
    using that by (auto simp: set_gpio_writes_other)
  have s1: "regs (snd (spi_start m)) C = regs m C OR 0x30"
    using assms(2) by (simp add: start clear_fifo_regs clearBit_quiet clearBit_regs_other q g)
  have s2: "writes_to C (trace (snd (spi_start m)))
        = writes_to C (trace m) @ [regs m C AND NOT 0x30, regs m C OR 0x30]"
    using assms(2)
    by (simp add: start clear_fifo_writes clearBit_quiet clearBit_regs_other
        clearBit_writes_other q g w)
  have s3: "writes_to SPI_CS (trace (snd (spi_start m)))
        = writes_to SPI_CS (trace m) @ [regs m SPI_CS AND NOT (push_bit 13 1)]"
    using assms(3)
    by (simp add: start clear_fifo_writes_other clearBit_writes q g w)
  have s4: "bit (regs (snd (spi_start m)) SPI_CS) n = (bit (regs m SPI_CS) n \<and> n \<noteq> 13)" for n
    using assms(3)
    by (simp add: start clear_fifo_regs_other clearBit_quiet clearBit_bit q g)
  have stop: "spi_stop m =
    set_gpio 11 0 (set_gpio 9 0 (set_gpio 10 0 (set_gpio 7 0 (set_gpio 8 0 (clear_fifo C m)))))"
    by (simp add: spi_stop_def Let_def)
  have t1: "regs (spi_stop m) C = regs m C OR 0x30"
    using assms(2) by (simp add: stop g clear_fifo_quiet clear_fifo_regs)
  have t2: "writes_to C (trace (spi_stop m))
        = writes_to C (trace m) @ [regs m C AND NOT 0x30, regs m C OR 0x30]"
    using assms(2) by (simp add: stop w clear_fifo_writes)
  have t3: "writes_to SPI_CS (trace (spi_stop m)) = writes_to SPI_CS (trace m)"
    by (simp add: stop w clear_fifo_writes_other)
  have t4: "regs (spi_stop m) SPI_CS = regs m SPI_CS"
    using assms(3) by (simp add: stop g clear_fifo_quiet clear_fifo_regs_other)
  show ?thesis
    using start(2) s1 s2 s3 s4 [of 4] s4 [of 5] t1 t2 t3 t4 by simp
qed

text \<open>A quiescent machine with the two-wire controller enabled (\<open>C = 0x8000\<close>).\<close>

theorem spi_clear_fifo_on_two_wire_witness:
  "base_pointer (machine_of ((\<lambda>r. 0)(C := 0x8000)) []) 4 \<noteq> 0
   \<and> quiet C (machine_of ((\<lambda>r. 0)(C := 0x8000)) [])
   \<and> quiet SPI_CS (machine_of ((\<lambda>r. 0)(C := 0x8000)) [])
   \<and> regs (snd (spi_start (machine_of ((\<lambda>r. 0)(C := 0x8000)) []))) C = 0x8030
   \<and> writes_to SPI_CS (trace (snd (spi_start (machine_of ((\<lambda>r. 0)(C := 0x8000)) [])))) = [0]
   \<and> regs (spi_stop (machine_of ((\<lambda>r. 0)(C := 0x8000)) [])) C = 0x8030
   \<and> writes_to SPI_CS (trace (spi_stop (machine_of ((\<lambda>r. 0)(C := 0x8000)) []))) = []
   \<and> regs (spi_stop (machine_of ((\<lambda>r. 0)(C := 0x8000)) [])) SPI_CS = 0"
proof -
  have h: "base_pointer (machine_of ((\<lambda>r. 0)(C := 0x8000)) []) 4 \<noteq> 0"
    "quiet C (machine_of ((\<lambda>r. 0)(C := 0x8000)) [])"
    "quiet SPI_CS (machine_of ((\<lambda>r. 0)(C := 0x8000)) [])"
    by (simp_all add: machine_of_simps)
  show ?thesis
    using h spi_clear_fifo_on_two_wire [OF h]
    by (simp add: machine_of_simps)
qed

section \<open>Two-wire transactions\<close>









lemma device_apply: "device u st r = (case u r of None \<Rightarrow> st r | Some v \<Rightarrow> v)"
  by (simp add: device_def)

lemmas run_simps =
  machine_of_def prologue_def returned_def printed_def outcome_def
  Let_def rd_def wr_def puts_def device_apply
  setBit_def clearBit_def isBitSet_def clear_fifo_def reset_error_status_def done_and_idle_def

lemmas run_congs =
  if_weak_cong let_weak_cong prod.case_cong_weak sum.case_cong_weak list.case_cong_weak
  option.case_cong_weak



text \<open>
  C2. A write of 20 bytes to a device that reports room in the FIFO (bit 2 of \<open>S\<close>) for
  twenty polls and then completion (bit 1) with the transfer-active bit clear: the length
  stored to \<open>DLEN\<close> is 20, all twenty bytes are stored to \<open>FIFO\<close>, the warning about the
  maximum of 16 bytes is printed, and the result is 0.
\<close>

theorem i2c_write_len20:
  "outcome (i2c_write [1, 2, 3, 4, 5, 6, 7, 8, 9, 10, 11, 12, 13, 14, 15, 16, 17, 18, 19, 20] 20
      (machine_of (\<lambda>r. 0)
        (prologue @ [[S \<mapsto> 0x4]] @
         [Map.empty, Map.empty, Map.empty, Map.empty, Map.empty,
          Map.empty, Map.empty, Map.empty, Map.empty, Map.empty,
          Map.empty, Map.empty, Map.empty, Map.empty, Map.empty,
          Map.empty, Map.empty, Map.empty, Map.empty, Map.empty] @ [[S \<mapsto> 0x2]])))
    = Inr (0x00, [20],
        [1, 2, 3, 4, 5, 6, 7, 8, 9, 10, 11, 12, 13, 14, 15, 16, 17, 18, 19, 20],
        [''maximum number of bytes per one write cycle is 16 bytes, beyond this data will be ignored''])"
  by (simp add: i2c_write_def fifo_push.simps run_simps cong: run_congs)

text \<open>
  A write of 10 bytes to a device that reports room for ten polls and then completion with
  the transfer-active bit clear: 10 is stored to \<open>DLEN\<close>, the ten bytes are stored to
  \<open>FIFO\<close>, nothing is printed and the result is 0.
\<close>

lemma i2c_write_len10:
  "outcome (i2c_write [1, 2, 3, 4, 5, 6, 7, 8, 9, 10] 10
      (machine_of (\<lambda>r. 0)
        (prologue @ [[S \<mapsto> 0x4]] @
         [Map.empty, Map.empty, Map.empty, Map.empty, Map.empty,
          Map.empty, Map.empty, Map.empty, Map.empty, Map.empty] @ [[S \<mapsto> 0x2]])))
    = Inr (0x00, [10], [1, 2, 3, 4, 5, 6, 7, 8, 9, 10], [])"
  by (simp add: i2c_write_def fifo_push.simps run_simps cong: run_congs)

text \<open>
  C3. A write of one byte that the device takes and then ends with completion,
  not-acknowledged and clock-stretch-timeout all set (\<open>S = 0x302\<close>) returns 2; a write
  that the device ends at once with completion and not-acknowledged (\<open>S = 0x102\<close>) returns
  4, after printing the not-acknowledged message. A read of one byte that ends with
  \<open>S = 0x302\<close> returns 1.
\<close>

theorem i2c_write_nack_overwritten:
  "outcome (i2c_write [0xAA] 1
      (machine_of (\<lambda>r. 0) (prologue @ [[S \<mapsto> 0x4], Map.empty, [S \<mapsto> 0x302]])))
    = Inr (0x02, [1], [0xAA],
        [''write error - slave address not acknowledged'',
         ''write error - clock stretch timeout''])
   \<and> outcome (i2c_write [0xAA] 1 (machine_of (\<lambda>r. 0) (prologue @ [[S \<mapsto> 0x102]])))
    = Inr (0x04, [1], [],
        [''write error - slave address not acknowledged'',
         ''write error - not all data is sent to slave device''])
   \<and> outcome (i2c_read [0x00] 1
      (machine_of (\<lambda>r. 0)
        (prologue @ [[S \<mapsto> 0x20], Map.empty, [FIFO \<mapsto> 0x55], [S \<mapsto> 0x302]])))
    = Inr ((0x01, [0x55]), [1], [], [''read error - slave address not acknowledge''])"
  by (simp add: i2c_write_def i2c_read_def fifo_push.simps fifo_pull.simps run_simps
      cong: run_congs)

text \<open>
  C10. \<open>i2c_byte_read\<close> returns 1 both when the device delivers the byte 1 and completes
  (nothing is printed) and when the device completes with not-acknowledged set; it returns
  2 both for the byte 2 and for a clock-stretch timeout; it returns 4 both for the byte 4
  and for a transfer that is still active when the completion bit is read.
\<close>

theorem i2c_byte_read_ambiguous:
  "outcome (i2c_byte_read (machine_of (\<lambda>r. 0)
      (prologue @ [[S \<mapsto> 0x20], Map.empty, [FIFO \<mapsto> 0x01], [S \<mapsto> 0x02]])))
    = Inr (0x01, [1], [], [])
   \<and> outcome (i2c_byte_read (machine_of (\<lambda>r. 0) (prologue @ [[S \<mapsto> 0x102]])))
    = Inr (0x01, [1], [], [''read error - slave address not acknowledged''])
   \<and> outcome (i2c_byte_read (machine_of (\<lambda>r. 0)
      (prologue @ [[S \<mapsto> 0x20], Map.empty, [FIFO \<mapsto> 0x02], [S \<mapsto> 0x02]])))
    = Inr (0x02, [1], [], [])
   \<and> outcome (i2c_byte_read (machine_of (\<lambda>r. 0) (prologue @ [[S \<mapsto> 0x202]])))
    = Inr (0x02, [1], [], [''read error - clock stretch timeout''])
   \<and> outcome (i2c_byte_read (machine_of (\<lambda>r. 0)
      (prologue @ [[S \<mapsto> 0x20], Map.empty, [FIFO \<mapsto> 0x04], [S \<mapsto> 0x02]])))
    = Inr (0x04, [1], [], [])
   \<and> outcome (i2c_byte_read (machine_of (\<lambda>r. 0) (prologue @ [[S \<mapsto> 0x03]])))
    = Inr (0x04, [1], [], [''read error - data transfer is not complete''])"
  by (simp add: i2c_byte_read_def byte_pull.simps run_simps cong: run_congs)

end
